theory Spec2Isabelle
  imports Complex_Main
begin

section \<open>JavaScript values\<close>

text \<open>
  The module \<^verbatim>\<open>src/lib/firebase/firestore.js\<close> is JavaScript on top of the
  Firestore client SDK. A JavaScript number is a double. The model keeps the values that
  decide the control flow (\<open>NaN\<close>, the two infinities and zero) and idealises the finite
  ones as rationals: rounding and overflow of finite results are not modelled, and zero
  stands for \<open>+0\<close> (the sums and quotients computed in this module never produce
  \<open>-0\<close> as an operand of a division).
\<close>

datatype jsnum = Num rat | PosInf | NegInf | NaN

text \<open>The operator \<^verbatim>\<open>+\<close> on two numbers.\<close>

fun num_add :: "jsnum \<Rightarrow> jsnum \<Rightarrow> jsnum" where
  "num_add NaN y = NaN"
| "num_add x NaN = NaN"
| "num_add (Num a) (Num b) = Num (a + b)"
| "num_add PosInf NegInf = NaN"
| "num_add NegInf PosInf = NaN"
| "num_add PosInf y = PosInf"
| "num_add x PosInf = PosInf"
| "num_add NegInf y = NegInf"
| "num_add x NegInf = NegInf"

text \<open>The operator \<^verbatim>\<open>/\<close> on two numbers; a zero divisor is \<open>+0\<close>.\<close>

fun num_div :: "jsnum \<Rightarrow> jsnum \<Rightarrow> jsnum" where
  "num_div NaN y = NaN"
| "num_div x NaN = NaN"
| "num_div (Num a) (Num b) =
     (if b \<noteq> 0 then Num (a / b)
      else if a = 0 then NaN
      else if 0 < a then PosInf else NegInf)"
| "num_div (Num a) PosInf = Num 0"
| "num_div (Num a) NegInf = Num 0"
| "num_div PosInf (Num b) = (if 0 \<le> b then PosInf else NegInf)"
| "num_div NegInf (Num b) = (if 0 \<le> b then NegInf else PosInf)"
| "num_div PosInf y = NaN"
| "num_div NegInf y = NaN"

text \<open>
  A defined primitive value. \<^verbatim>\<open>undefined\<close> is the absence of a value: an expression
  that may be \<^verbatim>\<open>undefined\<close> has type \<open>jsval option\<close>, and an object property
  holding \<^verbatim>\<open>undefined\<close> is represented as an absent property (Firestore refuses
  to write such a property in any case).
\<close>

datatype jsval = JNull | JBool bool | JNumber jsnum | JString string

text \<open>An object literal: its own properties in order, each key once.\<close>

type_synonym jsobject = "(string \<times> jsval) list"

text \<open>Property access \<^verbatim>\<open>obj.key\<close>, and destructuring of \<^verbatim>\<open>key\<close> from \<^verbatim>\<open>obj\<close>.\<close>

definition property :: "jsobject \<Rightarrow> string \<Rightarrow> jsval option" where
  "property obj key = map_of obj key"

text \<open>Truthiness of a number: every number but \<open>0\<close> and \<open>NaN\<close>.\<close>

definition truthy_num :: "jsnum \<Rightarrow> bool" where
  "truthy_num n = (n \<noteq> Num 0 \<and> n \<noteq> NaN)"

text \<open>Truthiness of a value, as \<^verbatim>\<open>if (v)\<close> and \<^verbatim>\<open>!v\<close> test it.\<close>

fun truthy :: "jsval option \<Rightarrow> bool" where
  "truthy None = False"
| "truthy (Some JNull) = False"
| "truthy (Some (JBool b)) = b"
| "truthy (Some (JNumber n)) = truthy_num n"
| "truthy (Some (JString s)) = (s \<noteq> [])"

text \<open>
  \<^verbatim>\<open>Number(v)\<close>. The conversion of a string (the StringToNumber grammar of the
  language) belongs to the JavaScript runtime; it is the parameter \<open>s2n\<close>.
\<close>

fun Number :: "(string \<Rightarrow> jsnum) \<Rightarrow> jsval option \<Rightarrow> jsnum" where
  "Number s2n None = NaN"
| "Number s2n (Some JNull) = Num 0"
| "Number s2n (Some (JBool b)) = (if b then Num 1 else Num 0)"
| "Number s2n (Some (JNumber n)) = n"
| "Number s2n (Some (JString s)) = s2n s"

text \<open>
  A restaurant or review identifier argument: a string, or \<^verbatim>\<open>undefined\<close>.
  \<^verbatim>\<open>!restaurantId\<close> holds of \<^verbatim>\<open>undefined\<close> and of the empty string.
\<close>

definition missing_id :: "string option \<Rightarrow> bool" where
  "missing_id restaurantId = (case restaurantId of None \<Rightarrow> True | Some s \<Rightarrow> s = [])"

text \<open>Errors: \<^verbatim>\<open>new Error(message)\<close> thrown by the module, a \<open>TypeError\<close> raised by
  the runtime, and an error of the Firestore SDK (its code is not modelled).\<close>

datatype error = Error string | TypeError | FirestoreError

section \<open>The Firestore store\<close>

text \<open>
  A value stored in a document: a primitive or a Firestore \<open>Timestamp\<close>. An instant is a
  number of milliseconds; \<^verbatim>\<open>Timestamp.fromDate\<close> and \<^verbatim>\<open>toDate\<close> keep the instant.
\<close>

datatype fsval = Plain jsval | Timestamp nat

type_synonym document = "string \<rightharpoonup> fsval"

text \<open>
  A restaurant document. \<open>updateWithRating\<close> computes with \<open>numRatings\<close> and \<open>sumRating\<close>
  and expects numbers there (its documentation comment); each field is a value of its
  type or missing.
\<close>

record restaurant =
  name :: "string option"
  category :: "string option"
  city :: "string option"
  price :: "jsnum option"
  photo :: "string option"
  numRatings :: "jsnum option"
  sumRating :: "jsnum option"
  avgRating :: "jsnum option"
  timestamp :: "nat option"

text \<open>\<^verbatim>\<open>snapshot.data()\<close> of a restaurant document, as a generic document.\<close>

definition doc_data :: "restaurant \<Rightarrow> document" where
  "doc_data r = (\<lambda>key.
     if key = ''name'' then map_option (\<lambda>s. Plain (JString s)) (name r)
     else if key = ''category'' then map_option (\<lambda>s. Plain (JString s)) (category r)
     else if key = ''city'' then map_option (\<lambda>s. Plain (JString s)) (city r)
     else if key = ''price'' then map_option (\<lambda>n. Plain (JNumber n)) (price r)
     else if key = ''photo'' then map_option (\<lambda>s. Plain (JString s)) (photo r)
     else if key = ''numRatings'' then map_option (\<lambda>n. Plain (JNumber n)) (numRatings r)
     else if key = ''sumRating'' then map_option (\<lambda>n. Plain (JNumber n)) (sumRating r)
     else if key = ''avgRating'' then map_option (\<lambda>n. Plain (JNumber n)) (avgRating r)
     else if key = ''timestamp'' then map_option Timestamp (timestamp r)
     else None)"

text \<open>
  The store: the collection \<^verbatim>\<open>restaurants\<close> by document id, and the subcollections
  \<^verbatim>\<open>restaurants/{restaurantId}/ratings\<close> by restaurant id and rating id.
  Identifiers are opaque path segments.
\<close>

record store =
  restaurants :: "string \<rightharpoonup> restaurant"
  ratings :: "string \<times> string \<rightharpoonup> document"

text \<open>
  A transaction of the SDK reads from the store and buffers its writes; \<open>runTransaction\<close>
  commits the buffered writes together. \<^verbatim>\<open>transaction.update\<close> requires the document
  to exist, otherwise the commit fails as a whole; \<^verbatim>\<open>transaction.set\<close> creates or
  replaces the document. Contention and the SDK's retries are outside this sequential
  model.
\<close>

datatype pending_write =
  Update string jsnum jsnum jsnum
| SetDoc "string \<times> string" document

record transaction =
  db :: store
  writes :: "pending_write list"

definition transaction_get :: "transaction \<Rightarrow> string \<Rightarrow> restaurant option" where
  "transaction_get t docRef = restaurants (db t) docRef"

definition transaction_update :: "transaction \<Rightarrow> string \<Rightarrow> jsnum \<Rightarrow> jsnum \<Rightarrow> jsnum \<Rightarrow> transaction" where
  "transaction_update t docRef n s a = t\<lparr>writes := writes t @ [Update docRef n s a]\<rparr>"

definition transaction_set :: "transaction \<Rightarrow> string \<times> string \<Rightarrow> document \<Rightarrow> transaction" where
  "transaction_set t docRef d = t\<lparr>writes := writes t @ [SetDoc docRef d]\<rparr>"

fun apply_write :: "store \<Rightarrow> pending_write \<Rightarrow> error + store" where
  "apply_write st (Update docRef n s a) =
     (case restaurants st docRef of
        None \<Rightarrow> Inl FirestoreError
      | Some r \<Rightarrow> Inr (st\<lparr>restaurants := (restaurants st)
          (docRef \<mapsto> r\<lparr>numRatings := Some n, sumRating := Some s, avgRating := Some a\<rparr>)\<rparr>))"
| "apply_write st (SetDoc docRef d) = Inr (st\<lparr>ratings := (ratings st)(docRef \<mapsto> d)\<rparr>)"

fun commit :: "store \<Rightarrow> pending_write list \<Rightarrow> error + store" where
  "commit st [] = Inr st"
| "commit st (w # ws) =
     (case apply_write st w of Inl e \<Rightarrow> Inl e | Inr st' \<Rightarrow> commit st' ws)"

definition runTransaction ::
  "store \<Rightarrow> (transaction \<Rightarrow> error + transaction) \<Rightarrow> (error + unit) \<times> store" where
  "runTransaction st updateFunction =
     (case updateFunction \<lparr>db = st, writes = []\<rparr> of
        Inl e \<Rightarrow> (Inl e, st)
      | Inr t \<Rightarrow>
          (case commit st (writes t) of
             Inl e \<Rightarrow> (Inl e, st)
           | Inr st' \<Rightarrow> (Inr (), st')))"

section \<open>Aggregate store: adding a review\<close>

text \<open>
  What the running process supplies: its string-to-number conversion, its clock
  (\<^verbatim>\<open>new Date()\<close>) and the identifier the SDK generates for a new document
  reference (\<^verbatim>\<open>doc(collection(...))\<close>).
\<close>

record runtime =
  stringToNumber :: "string \<Rightarrow> jsnum"
  clock :: nat
  autoId :: string

text \<open>\<^verbatim>\<open>data?.field\<close>: \<^verbatim>\<open>undefined\<close> when the snapshot has no data or no such field.\<close>

definition opt_field :: "restaurant option \<Rightarrow> (restaurant \<Rightarrow> jsnum option) \<Rightarrow> jsnum option" where
  "opt_field data f = (case data of None \<Rightarrow> None | Some r \<Rightarrow> f r)"

text \<open>\<^verbatim>\<open>{...review, timestamp: t}\<close> as the document written.\<close>

definition with_timestamp :: "jsobject \<Rightarrow> nat \<Rightarrow> document" where
  "with_timestamp review t = (map_option Plain \<circ> property review)(''timestamp'' \<mapsto> Timestamp t)"

definition updateWithRating ::
  "runtime \<Rightarrow> transaction \<Rightarrow> string \<Rightarrow> string \<times> string \<Rightarrow> jsobject \<Rightarrow> error + transaction" where
  "updateWithRating rt t docRef newRatingDocument review =
     (let data = transaction_get t docRef;
          newNumRatings =
            (case opt_field data numRatings of
               Some n \<Rightarrow> if truthy_num n then num_add n (Num 1) else Num 1
             | None \<Rightarrow> Num 1);
          newSumRating =
            num_add
              (case opt_field data sumRating of
                 Some s \<Rightarrow> if truthy_num s then s else Num 0
               | None \<Rightarrow> Num 0)
              (Number (stringToNumber rt) (property review ''rating''));
          newAverage = num_div newSumRating newNumRatings;
          t1 = transaction_update t docRef newNumRatings newSumRating newAverage;
          t2 = transaction_set t1 newRatingDocument (with_timestamp review (clock rt))
      in Inr t2)"

text \<open>
  \<open>addReviewToRestaurant\<close>: the result is the thrown error or a normal return, with the
  store afterwards. The \<^verbatim>\<open>catch\<close> block logs and rethrows the same error.
\<close>

definition addReviewToRestaurant ::
  "runtime \<Rightarrow> store \<Rightarrow> string option \<Rightarrow> jsobject option \<Rightarrow> (error + unit) \<times> store" where
  "addReviewToRestaurant rt st restaurantId review =
     (if missing_id restaurantId then
        (Inl (Error ''No restaurant ID has been provided.''), st)
      else
        (case review of
           None \<Rightarrow> (Inl (Error ''A valid review has not been provided.''), st)
         | Some rv \<Rightarrow>
             (case restaurantId of
                None \<Rightarrow> (Inl (Error ''No restaurant ID has been provided.''), st)
              | Some rid \<Rightarrow>
                  (let docRef = rid;
                       newRatingDocument = (rid, autoId rt)
                   in runTransaction st
                        (\<lambda>transaction. updateWithRating rt transaction docRef newRatingDocument rv)))))"

section \<open>Query composer\<close>

text \<open>
  A query is a collection path and the constraints added to it, in the order added.
  \<open>Where field Equal v\<close> is \<^verbatim>\<open>where(field, "==", v)\<close> and \<open>OrderBy field Desc\<close> is
  \<^verbatim>\<open>orderBy(field, "desc")\<close>; the module builds no other constraint.
\<close>

datatype where_op = Equal

datatype direction = Desc

datatype constraint = Where string where_op jsval | OrderBy string direction

record query_spec =
  path :: "string list"
  constraints :: "constraint list"

text \<open>\<^verbatim>\<open>query(collection(db, ...segments))\<close>: the query of a whole collection.\<close>

definition collection_query :: "string list \<Rightarrow> query_spec" where
  "collection_query segments = \<lparr>path = segments, constraints = []\<rparr>"

text \<open>\<^verbatim>\<open>query(q, c)\<close>: the query \<open>q\<close> with one more constraint.\<close>

definition query :: "query_spec \<Rightarrow> constraint \<Rightarrow> query_spec" where
  "query q c = q\<lparr>constraints := constraints q @ [c]\<rparr>"

definition applyQueryFilters :: "query_spec \<Rightarrow> jsobject \<Rightarrow> query_spec" where
  "applyQueryFilters q filters =
     (let category = property filters ''category'';
          city = property filters ''city'';
          price = property filters ''price'';
          sort = property filters ''sort'';
          q1 = (case category of
                  Some v \<Rightarrow> if truthy category then query q (Where ''category'' Equal v) else q
                | None \<Rightarrow> q);
          q2 = (case city of
                  Some v \<Rightarrow> if truthy city then query q1 (Where ''city'' Equal v) else q1
                | None \<Rightarrow> q1);
          q3 = (case price of
                  Some v \<Rightarrow> if truthy price then query q2 (Where ''price'' Equal v) else q2
                | None \<Rightarrow> q2)
      in if sort = Some (JString ''Rating'') \<or> \<not> truthy sort then
           query q3 (OrderBy ''avgRating'' Desc)
         else if sort = Some (JString ''Review'') then
           query q3 (OrderBy ''numRatings'' Desc)
         else q3)"

text \<open>The ordering clauses of a query, and its equality filters.\<close>

fun is_order :: "constraint \<Rightarrow> bool" where
  "is_order (OrderBy field dir) = True"
| "is_order (Where field op v) = False"

definition ordering :: "query_spec \<Rightarrow> constraint list" where
  "ordering q = filter is_order (constraints q)"

definition filters_of :: "query_spec \<Rightarrow> constraint list" where
  "filters_of q = filter (\<lambda>c. \<not> is_order c) (constraints q)"

text \<open>
  Firestore's reading of the filters of a query: a document passes when it satisfies
  every \<open>Where\<close> constraint, and it satisfies an equality constraint when the field holds
  that value.
\<close>

fun satisfies :: "document \<Rightarrow> constraint \<Rightarrow> bool" where
  "satisfies d (Where field Equal v) = (d field = Some (Plain v))"
| "satisfies d (OrderBy field dir) = True"

definition passes_filters :: "document \<Rightarrow> query_spec \<Rightarrow> bool" where
  "passes_filters d q = list_all (satisfies d) (filters_of q)"

section \<open>Reads and realtime subscriptions\<close>

text \<open>
  The plain object handed to callers: the stored fields, with \<open>timestamp\<close> converted to
  a date. \<^verbatim>\<open>x.timestamp.toDate()\<close> raises a \<open>TypeError\<close> unless the field holds a
  \<open>Timestamp\<close>.
\<close>

datatype plainval = Field fsval | Date nat

type_synonym plain_object = "string \<rightharpoonup> plainval"


text \<open>\<^verbatim>\<open>{id: doc.id, ...doc.data(), timestamp: doc.data().timestamp.toDate()}\<close>\<close>

definition plain_with_id :: "string \<Rightarrow> document \<Rightarrow> error + plain_object" where
  "plain_with_id i d =
     (case d ''timestamp'' of
        Some (Timestamp t) \<Rightarrow>
          Inr (([''id'' \<mapsto> Field (Plain (JString i))] ++ (map_option Field \<circ> d))
                 (''timestamp'' \<mapsto> Date t))
      | Some (Plain v) \<Rightarrow> Inl TypeError
      | None \<Rightarrow> Inl TypeError)"

text \<open>\<^verbatim>\<open>getDoc(docRef)\<close> then \<^verbatim>\<open>.data()\<close>: \<^verbatim>\<open>undefined\<close> when there is no document.\<close>

definition getDoc :: "store \<Rightarrow> string \<Rightarrow> document option" where
  "getDoc st i = map_option doc_data (restaurants st i)"


text \<open>
  A callback argument: a function (identified by a number) or a value that is not
  callable. Calling the latter raises a \<open>TypeError\<close>. What a function does when called
  is the caller's business; the model records the call.
\<close>

datatype callback = Function nat | NotFunction "jsval option"

fun is_function :: "callback \<Rightarrow> bool" where
  "is_function (Function f) = True"
| "is_function (NotFunction v) = False"

datatype delivered = Null | Data plain_object | Results "plain_object list"

fun call :: "callback \<Rightarrow> delivered \<Rightarrow> error + nat \<times> delivered" where
  "call (Function f) v = Inr (f, v)"
| "call (NotFunction x) v = Inl TypeError"

text \<open>
  A listener registered with \<open>onSnapshot\<close>: its target and the closure given, which
  captures the callback. There is one closure per subscription function.
\<close>

datatype listener =
  RestaurantsListener query_spec callback
| RestaurantListener string callback
| ReviewsListener query_spec callback

datatype unsubscribe = Unsubscribe nat

definition onSnapshot :: "listener list \<Rightarrow> listener \<Rightarrow> unsubscribe \<times> listener list" where
  "onSnapshot ls l = (Unsubscribe (length ls), ls @ [l])"

text \<open>\<^verbatim>\<open>querySnapshot.docs.map(...)\<close>: the first document that cannot be mapped raises.\<close>

fun map_docs :: "(string \<times> document) list \<Rightarrow> error + plain_object list" where
  "map_docs [] = Inr []"
| "map_docs ((i, d) # ds) =
     (case plain_with_id i d of
        Inl e \<Rightarrow> Inl e
      | Inr p \<Rightarrow> (case map_docs ds of Inl e \<Rightarrow> Inl e | Inr ps \<Rightarrow> Inr (p # ps)))"

text \<open>The closure of \<open>getRestaurantsSnapshot\<close> and of \<open>getReviewsSnapshotByRestaurantId\<close>.\<close>

definition query_next :: "callback \<Rightarrow> (string \<times> document) list \<Rightarrow> error + nat \<times> delivered" where
  "query_next cb docs =
     (case map_docs docs of Inl e \<Rightarrow> Inl e | Inr results \<Rightarrow> call cb (Results results))"

text \<open>The closure of \<open>getRestaurantSnapshotById\<close>; \<open>None\<close> is a snapshot that does not exist.\<close>

definition doc_next :: "callback \<Rightarrow> string \<Rightarrow> document option \<Rightarrow> error + nat \<times> delivered" where
  "doc_next cb i docSnap =
     (case docSnap of
        None \<Rightarrow> call cb Null
      | Some d \<Rightarrow>
          (case plain_with_id i d of Inl e \<Rightarrow> Inl e | Inr p \<Rightarrow> call cb (Data p)))"

text \<open>
  The three subscription functions. The result is what the call returns
  (\<open>Inr None\<close> for \<^verbatim>\<open>undefined\<close>, \<open>Inr (Some u)\<close> for the unsubscribe function) or throws,
  with the listeners registered afterwards. \<open>filters\<close> defaults to the empty object.
  Messages written to the console are not part of the model.
\<close>

definition getRestaurantsSnapshot ::
  "callback \<Rightarrow> jsobject option \<Rightarrow> listener list \<Rightarrow> (error + unsubscribe option) \<times> listener list" where
  "getRestaurantsSnapshot cb filters ls =
     (if \<not> is_function cb then (Inr None, ls)
      else
        (let q = collection_query [''restaurants''];
             q' = applyQueryFilters q (case filters of None \<Rightarrow> [] | Some f \<Rightarrow> f);
             (u, ls') = onSnapshot ls (RestaurantsListener q' cb)
         in (Inr (Some u), ls')))"

definition getRestaurantSnapshotById ::
  "string option \<Rightarrow> callback \<Rightarrow> listener list \<Rightarrow> (error + unsubscribe option) \<times> listener list" where
  "getRestaurantSnapshotById restaurantId cb ls =
     (if missing_id restaurantId then (Inr None, ls)
      else
        (case restaurantId of
           None \<Rightarrow> (Inr None, ls)
         | Some rid \<Rightarrow>
             (let (u, ls') = onSnapshot ls (RestaurantListener rid cb)
              in (Inr (Some u), ls'))))"

definition getReviewsSnapshotByRestaurantId ::
  "string option \<Rightarrow> callback \<Rightarrow> listener list \<Rightarrow> (error + unsubscribe option) \<times> listener list" where
  "getReviewsSnapshotByRestaurantId restaurantId cb ls =
     (if missing_id restaurantId then (Inr None, ls)
      else
        (case restaurantId of
           None \<Rightarrow> (Inr None, ls)
         | Some rid \<Rightarrow>
             (let q = query (collection_query [''restaurants'', rid, ''ratings''])
                        (OrderBy ''timestamp'' Desc);
                  (u, ls') = onSnapshot ls (ReviewsListener q cb)
              in (Inr (Some u), ls'))))"

text \<open>
  What a registered listener does when the SDK notifies it: the SDK hands the closure the
  snapshot of the document watched, or the documents of the query. Which documents a
  query selects, and in which order, is decided by the backend: \<open>run\<close>.
\<close>

fun notify ::
  "(query_spec \<Rightarrow> (string \<times> document) list) \<Rightarrow> store \<Rightarrow> listener \<Rightarrow> error + nat \<times> delivered" where
  "notify run st (RestaurantsListener q cb) = query_next cb (run q)"
| "notify run st (RestaurantListener rid cb) = doc_next cb rid (getDoc st rid)"
| "notify run st (ReviewsListener q cb) = query_next cb (run q)"

section \<open>Readings of the specification, and worked examples\<close>

text \<open>
  The specification computes the new aggregate from the current value of a field,
  ``treating a missing current value as 0''. \<open>missing_as_zero\<close> is that reading.
  The code tests the field for truthiness, which also takes \<open>NaN\<close> (and \<open>0\<close> itself)
  to \<open>0\<close>: \<open>missing_or_NaN_as_zero\<close>.
\<close>

definition missing_as_zero :: "jsnum option \<Rightarrow> jsnum" where
  "missing_as_zero v = (case v of None \<Rightarrow> Num 0 | Some n \<Rightarrow> n)"

definition missing_or_NaN_as_zero :: "jsnum option \<Rightarrow> jsnum" where
  "missing_or_NaN_as_zero v = (case v of None \<Rightarrow> Num 0 | Some n \<Rightarrow> if n = NaN then Num 0 else n)"

text \<open>
  The specification's equality filter on \<open>key\<close>: omitted when the option is absent
  (falsy), otherwise the document's field must equal the option's value.
\<close>

definition filter_holds :: "document \<Rightarrow> jsobject \<Rightarrow> string \<Rightarrow> bool" where
  "filter_holds d filters key =
     (case property filters key of
        None \<Rightarrow> True
      | Some v \<Rightarrow> if truthy (Some v) then d key = Some (Plain v) else True)"

text \<open>
  A conversion for the worked examples: it agrees with JavaScript on the empty string and
  on strings of decimal digits, and takes every other string to \<open>NaN\<close>. The theorems
  below hold for every conversion.
\<close>

definition digit_value :: "char \<Rightarrow> nat option" where
  "digit_value c =
     (if 48 \<le> (of_char c :: nat) \<and> (of_char c :: nat) \<le> 57 then Some (of_char c - 48) else None)"

fun decimal :: "string \<Rightarrow> nat \<Rightarrow> nat option" where
  "decimal [] acc = Some acc"
| "decimal (c # cs) acc =
     (case digit_value c of None \<Rightarrow> None | Some d \<Rightarrow> decimal cs (10 * acc + d))"

definition digits_to_number :: "string \<Rightarrow> jsnum" where
  "digits_to_number s = (case decimal s 0 of None \<Rightarrow> NaN | Some n \<Rightarrow> Num (of_nat n))"

definition example_runtime :: runtime where
  "example_runtime = \<lparr>stringToNumber = digits_to_number, clock = 1700000000000, autoId = ''review3''\<rparr>"

text \<open>The restaurant of the specification's end-to-end example, with two reviews.\<close>

definition example_restaurant :: restaurant where
  "example_restaurant =
     \<lparr>name = Some ''Trattoria'', category = Some ''Italian'', city = Some ''Rome'',
      price = Some (Num 2), photo = None,
      numRatings = Some (Num 2), sumRating = Some (Num 7), avgRating = Some (Num (7 / 2)),
      timestamp = Some 1600000000000\<rparr>"

definition example_store :: store where
  "example_store =
     \<lparr>restaurants = [''R'' \<mapsto> example_restaurant],
      ratings = [(''R'', ''review1'') \<mapsto> with_timestamp [(''rating'', JNumber (Num 3))] 1600000000001,
                 (''R'', ''review2'') \<mapsto> with_timestamp [(''rating'', JNumber (Num 4))] 1600000000002]\<rparr>"

text \<open>A field of a stored review, \<open>None\<close> when the review or the field is missing.\<close>

definition review_field :: "store \<Rightarrow> string \<times> string \<Rightarrow> string \<Rightarrow> fsval option" where
  "review_field st ref key = (case ratings st ref of None \<Rightarrow> None | Some d \<Rightarrow> d key)"


section \<open>Properties of the transactional write path\<close>

lemmas example_defs = example_store_def example_restaurant_def example_runtime_def
  with_timestamp_def property_def missing_or_NaN_as_zero_def missing_as_zero_def

text \<open>The truthiness tests of \<open>updateWithRating\<close>, as a default for the current value.\<close>

lemma truthy_plus_one:
  "(case v of Some n \<Rightarrow> if truthy_num n then num_add n (Num 1) else Num 1 | None \<Rightarrow> Num 1)
     = num_add (missing_or_NaN_as_zero v) (Num 1)"
  by (auto simp: missing_or_NaN_as_zero_def truthy_num_def split: option.splits)

lemma truthy_or_zero:
  "(case v of Some s \<Rightarrow> if truthy_num s then s else Num 0 | None \<Rightarrow> Num 0)
     = missing_or_NaN_as_zero v"
  by (auto simp: missing_or_NaN_as_zero_def truthy_num_def split: option.splits)

text \<open>The three outcomes of a call with a review: the restaurant exists, it does not, the
  id is empty.\<close>

lemma addReview_existing:
  assumes "rid \<noteq> []" and "restaurants st rid = Some r"
  shows "addReviewToRestaurant rt st (Some rid) (Some review) =
     (Inr (),
      st\<lparr>restaurants := (restaurants st)(rid \<mapsto> r\<lparr>
            numRatings := Some (num_add (missing_or_NaN_as_zero (numRatings r)) (Num 1)),
            sumRating := Some (num_add (missing_or_NaN_as_zero (sumRating r))
                                 (Number (stringToNumber rt) (property review ''rating''))),
            avgRating := Some (num_div
                                 (num_add (missing_or_NaN_as_zero (sumRating r))
                                    (Number (stringToNumber rt) (property review ''rating'')))
                                 (num_add (missing_or_NaN_as_zero (numRatings r)) (Num 1)))\<rparr>),
          ratings := (ratings st)((rid, autoId rt) \<mapsto> with_timestamp review (clock rt))\<rparr>)"
  using assms
  by (simp add: addReviewToRestaurant_def missing_id_def runTransaction_def updateWithRating_def
      transaction_get_def transaction_update_def transaction_set_def Let_def opt_field_def
      truthy_plus_one truthy_or_zero)

lemma addReview_no_document:
  assumes "restaurants st rid = None"
  shows "\<exists>e. addReviewToRestaurant rt st (Some rid) (Some review) = (Inl e, st)"
  using assms
  by (simp add: addReviewToRestaurant_def missing_id_def runTransaction_def updateWithRating_def
      transaction_get_def transaction_update_def transaction_set_def Let_def opt_field_def)

lemma addReview_empty_id:
  "addReviewToRestaurant rt st (Some []) review =
     (Inl (Error ''No restaurant ID has been provided.''), st)"
  by (simp add: addReviewToRestaurant_def missing_id_def)

lemma addReview_succeeds_iff:
  "(fst (addReviewToRestaurant rt st (Some rid) (Some review)) = Inr ()) =
     (rid \<noteq> [] \<and> restaurants st rid \<noteq> None)"
proof (cases "restaurants st rid")
  case None
  then obtain e where "addReviewToRestaurant rt st (Some rid) (Some review) = (Inl e, st)"
    using addReview_no_document by blast
  then show ?thesis using None by simp
next
  case (Some r)
  then show ?thesis
    by (cases "rid = []") (simp_all add: addReview_empty_id addReview_existing)
qed





text \<open>
  C3. A call of \<open>addReviewToRestaurant\<close> without a restaurant id (\<^verbatim>\<open>undefined\<close> or the
  empty string) or without a review (\<^verbatim>\<open>undefined\<close>) throws the error of the
  corresponding check, and the store is unchanged: no restaurant and no review is
  created or modified.
\<close>

theorem submitReview_invalid_input:
  assumes "missing_id restaurantId \<or> review = None"
  shows "addReviewToRestaurant rt st restaurantId review =
     (Inl (Error (if missing_id restaurantId then ''No restaurant ID has been provided.''
                  else ''A valid review has not been provided.'')), st)"
  using assms by (auto simp: addReviewToRestaurant_def split: option.splits)

theorem submitReview_invalid_input_witness:
  "(missing_id (Some []) \<or> Some [(''rating'', JNumber (Num 5))] = None) \<and>
   addReviewToRestaurant example_runtime example_store (Some [])
     (Some [(''rating'', JNumber (Num 5))]) =
     (Inl (Error ''No restaurant ID has been provided.''), example_store) \<and>
   (missing_id (Some ''R'') \<or> (None :: jsobject option) = None) \<and>
   addReviewToRestaurant example_runtime example_store (Some ''R'') None =
     (Inl (Error ''A valid review has not been provided.''), example_store)"
proof -
  have a: "missing_id (Some []) \<or> Some [(''rating'', JNumber (Num 5))] = None"
    by (simp add: missing_id_def)
  have b: "missing_id (Some ''R'') \<or> (None :: jsobject option) = None"
    by simp
  have c: "\<not> missing_id (Some ''R'')"
    by (simp add: missing_id_def)
  show ?thesis
    using submitReview_invalid_input [OF a, of example_runtime example_store]
      submitReview_invalid_input [OF b, of example_runtime example_store] a c
    by simp
qed

lemma num_add_NaN_right: "num_add x NaN = NaN"
  by (cases x) simp_all

lemma not_a_number: "digits_to_number ''n/a'' = NaN"
  by (simp add: digits_to_number_def digit_value_def)

text \<open>
  C9. For every review object whose \<open>rating\<close> is absent, or is converted to \<open>NaN\<close> by
  \<^verbatim>\<open>Number\<close>, and every existing restaurant (with a non-empty id): the call passes the
  checks of its arguments and commits without an error; the review is stored, and the
  restaurant's \<open>sumRating\<close> and \<open>avgRating\<close> are \<open>NaN\<close> afterwards.
\<close>

theorem submitReview_unusable_rating:
  assumes id: "rid \<noteq> []"
      and doc: "restaurants st rid = Some r"
      and rating: "property review ''rating'' = None \<or>
                   Number (stringToNumber rt) (property review ''rating'') = NaN"
  shows "\<exists>st' r'. addReviewToRestaurant rt st (Some rid) (Some review) = (Inr (), st') \<and>
           restaurants st' rid = Some r' \<and> sumRating r' = Some NaN \<and> avgRating r' = Some NaN \<and>
           ratings st' (rid, autoId rt) = Some (with_timestamp review (clock rt))"
proof -
  have "Number (stringToNumber rt) (property review ''rating'') = NaN"
    using rating by auto
  then show ?thesis
    using id doc by (simp add: addReview_existing num_add_NaN_right)
qed

text \<open>The reviews \<open>{text: "good"}\<close> and \<open>{rating: "n/a"}\<close> on the example restaurant.\<close>

theorem submitReview_unusable_rating_witness:
  "''R'' \<noteq> [] \<and> restaurants example_store ''R'' = Some example_restaurant \<and>
   (property [(''text'', JString ''good'')] ''rating'' = None \<or>
    Number (stringToNumber example_runtime) (property [(''text'', JString ''good'')] ''rating'') = NaN) \<and>
   fst (addReviewToRestaurant example_runtime example_store (Some ''R'')
          (Some [(''text'', JString ''good'')])) = Inr () \<and>
   restaurants (snd (addReviewToRestaurant example_runtime example_store (Some ''R'')
          (Some [(''text'', JString ''good'')]))) ''R'' =
     Some (example_restaurant\<lparr>numRatings := Some (Num 3), sumRating := Some NaN,
                               avgRating := Some NaN\<rparr>) \<and>
   (property [(''rating'', JString ''n/a'')] ''rating'' = None \<or>
    Number (stringToNumber example_runtime) (property [(''rating'', JString ''n/a'')] ''rating'') = NaN) \<and>
   fst (addReviewToRestaurant example_runtime example_store (Some ''R'')
          (Some [(''rating'', JString ''n/a'')])) = Inr () \<and>
   restaurants (snd (addReviewToRestaurant example_runtime example_store (Some ''R'')
          (Some [(''rating'', JString ''n/a'')]))) ''R'' =
     Some (example_restaurant\<lparr>numRatings := Some (Num 3), sumRating := Some NaN,
                               avgRating := Some NaN\<rparr>)"
proof -
  have id: "''R'' \<noteq> []" by simp
  have doc: "restaurants example_store ''R'' = Some example_restaurant"
    by (simp add: example_store_def)
  have absent: "property [(''text'', JString ''good'')] ''rating'' = None \<or>
    Number (stringToNumber example_runtime) (property [(''text'', JString ''good'')] ''rating'') = NaN"
    by (simp add: property_def)
  have unusable: "property [(''rating'', JString ''n/a'')] ''rating'' = None \<or>
    Number (stringToNumber example_runtime) (property [(''rating'', JString ''n/a'')] ''rating'') = NaN"
    by (simp add: property_def example_runtime_def not_a_number)
  have run1: "addReviewToRestaurant example_runtime example_store (Some ''R'')
          (Some [(''text'', JString ''good'')]) =
     (Inr (), example_store\<lparr>restaurants := (restaurants example_store)(''R'' \<mapsto>
           example_restaurant\<lparr>numRatings := Some (Num 3), sumRating := Some NaN,
                               avgRating := Some NaN\<rparr>),
        ratings := (ratings example_store)((''R'', autoId example_runtime) \<mapsto>
           with_timestamp [(''text'', JString ''good'')] (clock example_runtime))\<rparr>)"
    by (simp add: addReview_existing [where r = example_restaurant] example_defs)
  have run2: "addReviewToRestaurant example_runtime example_store (Some ''R'')
          (Some [(''rating'', JString ''n/a'')]) =
     (Inr (), example_store\<lparr>restaurants := (restaurants example_store)(''R'' \<mapsto>
           example_restaurant\<lparr>numRatings := Some (Num 3), sumRating := Some NaN,
                               avgRating := Some NaN\<rparr>),
        ratings := (ratings example_store)((''R'', autoId example_runtime) \<mapsto>
           with_timestamp [(''rating'', JString ''n/a'')] (clock example_runtime))\<rparr>)"
    by (simp add: addReview_existing [where r = example_restaurant] example_defs not_a_number)
  show ?thesis
    using submitReview_unusable_rating [OF id doc absent]
      submitReview_unusable_rating [OF id doc unusable] id doc absent unusable
    by (simp add: run1 run2)
qed

text \<open>
  C8, as stated: were the timestamp assigned by the store, it would not depend on the
  clock of the process that submits. The same review submitted to the same store under
  two readings of that clock is stored with two timestamps, each the reading of the clock.
\<close>

theorem review_timestamp_counterexample:
  "review_field
     (snd (addReviewToRestaurant (example_runtime\<lparr>clock := 1\<rparr>) example_store (Some ''R'')
             (Some [(''rating'', JNumber (Num 5))])))
     (''R'', ''review3'') ''timestamp'' = Some (Timestamp 1) \<and>
   review_field
     (snd (addReviewToRestaurant (example_runtime\<lparr>clock := 2\<rparr>) example_store (Some ''R'')
             (Some [(''rating'', JNumber (Num 5))])))
     (''R'', ''review3'') ''timestamp'' = Some (Timestamp 2)"
  by (simp add: addReview_existing [where r = example_restaurant] example_defs review_field_def)

text \<open>
  C8 (amended). For every successful call, the review stored at the new reference has
  the timestamp that \<open>updateWithRating\<close> computes from the clock of the process running
  it (\<^verbatim>\<open>Timestamp.fromDate(new Date())\<close>) when it prepares the write, whatever the
  review passed in holds: a \<open>timestamp\<close> of the caller's review is overridden.
\<close>

theorem review_timestamp:
  assumes "addReviewToRestaurant rt st (Some rid) (Some review) = (Inr (), st')"
  shows "\<exists>d. ratings st' (rid, autoId rt) = Some d \<and>
              d ''timestamp'' = Some (Timestamp (clock rt))"
proof (cases "restaurants st rid")
  case None
  then show ?thesis using assms addReview_no_document [OF None, of rt review] by auto
next
  case (Some r)
  show ?thesis
  proof (cases "rid = []")
    case True
    then show ?thesis using assms by (simp add: addReview_empty_id)
  next
    case False
    have "st' = st\<lparr>restaurants := (restaurants st)(rid \<mapsto> r\<lparr>
            numRatings := Some (num_add (missing_or_NaN_as_zero (numRatings r)) (Num 1)),
            sumRating := Some (num_add (missing_or_NaN_as_zero (sumRating r))
                                 (Number (stringToNumber rt) (property review ''rating''))),
            avgRating := Some (num_div
                                 (num_add (missing_or_NaN_as_zero (sumRating r))
                                    (Number (stringToNumber rt) (property review ''rating'')))
                                 (num_add (missing_or_NaN_as_zero (numRatings r)) (Num 1)))\<rparr>),
          ratings := (ratings st)((rid, autoId rt) \<mapsto> with_timestamp review (clock rt))\<rparr>"
      using assms addReview_existing [OF False Some, of rt review] by simp
    then show ?thesis by (simp add: with_timestamp_def)
  qed
qed

text \<open>A review that brings a \<open>timestamp\<close> of its own is stored with the clock's.\<close>

theorem review_timestamp_witness:
  "addReviewToRestaurant example_runtime example_store (Some ''R'')
     (Some [(''rating'', JNumber (Num 5)), (''timestamp'', JNumber (Num 0))]) =
     (Inr (), snd (addReviewToRestaurant example_runtime example_store (Some ''R'')
                     (Some [(''rating'', JNumber (Num 5)), (''timestamp'', JNumber (Num 0))]))) \<and>
   review_field
     (snd (addReviewToRestaurant example_runtime example_store (Some ''R'')
             (Some [(''rating'', JNumber (Num 5)), (''timestamp'', JNumber (Num 0))])))
     (''R'', ''review3'') ''timestamp'' = Some (Timestamp 1700000000000)"
proof -
  have run: "addReviewToRestaurant example_runtime example_store (Some ''R'')
     (Some [(''rating'', JNumber (Num 5)), (''timestamp'', JNumber (Num 0))]) =
     (Inr (), snd (addReviewToRestaurant example_runtime example_store (Some ''R'')
                     (Some [(''rating'', JNumber (Num 5)), (''timestamp'', JNumber (Num 0))])))"
    by (simp add: addReview_existing [where r = example_restaurant] example_store_def)
  show ?thesis
    using review_timestamp [OF run] run
    by (auto simp: review_field_def example_runtime_def)
qed

section \<open>Properties of the query composer\<close>

lemma ordering_query: "ordering (query q c) = ordering q @ (if is_order c then [c] else [])"
  by (simp add: ordering_def query_def)

lemma filters_of_query: "filters_of (query q c) = filters_of q @ (if is_order c then [] else [c])"
  by (simp add: filters_of_def query_def)

lemma ordering_apply:
  "ordering (applyQueryFilters q filters) = ordering q @
     (if property filters ''sort'' = Some (JString ''Rating'') \<or> \<not> truthy (property filters ''sort'')
      then [OrderBy ''avgRating'' Desc]
      else if property filters ''sort'' = Some (JString ''Review'')
      then [OrderBy ''numRatings'' Desc]
      else [])"
  by (simp add: applyQueryFilters_def Let_def ordering_query split: option.splits)

lemma filters_of_apply:
  "filters_of (applyQueryFilters q filters) = filters_of q @
     (case property filters ''category'' of
        Some v \<Rightarrow> if truthy (Some v) then [Where ''category'' Equal v] else [] | None \<Rightarrow> []) @
     (case property filters ''city'' of
        Some v \<Rightarrow> if truthy (Some v) then [Where ''city'' Equal v] else [] | None \<Rightarrow> []) @
     (case property filters ''price'' of
        Some v \<Rightarrow> if truthy (Some v) then [Where ''price'' Equal v] else [] | None \<Rightarrow> [])"
  by (simp add: applyQueryFilters_def Let_def filters_of_query split: option.splits)

lemma passes_apply:
  "passes_filters d (applyQueryFilters q filters) =
     (passes_filters d q \<and> filter_holds d filters ''category'' \<and>
      filter_holds d filters ''city'' \<and> filter_holds d filters ''price'')"
  by (auto simp: passes_filters_def filters_of_apply filter_holds_def split: option.splits)

lemma apply_same_properties:
  assumes "map_of f1 = map_of f2"
  shows "applyQueryFilters q f1 = applyQueryFilters q f2"
proof -
  have "property f1 = property f2"
    using assms by (simp add: property_def fun_eq_iff)
  then show ?thesis
    by (simp add: applyQueryFilters_def)
qed

text \<open>
  C4, as stated, at \<open>{sort: "unknown"}\<close>: the value is truthy and is neither \<open>"Rating"\<close>
  nor \<open>"Review"\<close>, and the query built has no ordering clause at all.
\<close>

theorem applyQueryFilters_ordering_counterexample:
  "ordering (applyQueryFilters (collection_query [''restaurants''])
      [(''sort'', JString ''unknown'')]) = [] \<and>
   truthy (property [(''sort'', JString ''unknown'')] ''sort'')"
  by (simp add: applyQueryFilters_def Let_def ordering_def query_def collection_query_def
      property_def)

text \<open>
  C4 (amended). For every filter object, \<open>applyQueryFilters\<close> adds to the query: the
  ordering by \<open>avgRating\<close> descending when \<open>sort\<close> is \<open>"Rating"\<close> or absent (falsy); the
  ordering by \<open>numRatings\<close> descending when \<open>sort\<close> is \<open>"Review"\<close>; and no ordering clause
  for any other value of \<open>sort\<close>. It never fails.
\<close>

theorem applyQueryFilters_ordering:
  "ordering (applyQueryFilters q filters) = ordering q @
     (if property filters ''sort'' = Some (JString ''Rating'') \<or> \<not> truthy (property filters ''sort'')
      then [OrderBy ''avgRating'' Desc]
      else if property filters ''sort'' = Some (JString ''Review'')
      then [OrderBy ''numRatings'' Desc]
      else [])"
  by (rule ordering_apply)

theorem applyQueryFilters_ordering_witness:
  "ordering (applyQueryFilters (collection_query [''restaurants'']) [(''sort'', JString ''Review'')])
     = [OrderBy ''numRatings'' Desc] \<and>
   ordering (applyQueryFilters (collection_query [''restaurants'']) [])
     = [OrderBy ''avgRating'' Desc] \<and>
   ordering (applyQueryFilters (collection_query [''restaurants'']) [(''sort'', JString ''Rating'')])
     = [OrderBy ''avgRating'' Desc] \<and>
   ordering (applyQueryFilters (collection_query [''restaurants'']) [(''sort'', JString [])])
     = [OrderBy ''avgRating'' Desc]"
  using applyQueryFilters_ordering [of "collection_query [''restaurants'']" "[(''sort'', JString ''Review'')]"]
    applyQueryFilters_ordering [of "collection_query [''restaurants'']" "[]"]
    applyQueryFilters_ordering [of "collection_query [''restaurants'']" "[(''sort'', JString ''Rating'')]"]
    applyQueryFilters_ordering [of "collection_query [''restaurants'']" "[(''sort'', JString [])]"]
  by (simp add: property_def ordering_def collection_query_def)

text \<open>
  C5. \<open>applyQueryFilters\<close> is a function of the query and of the properties of the filter
  object: two filter objects with the same properties, in whatever order they list them,
  give equal queries. A document passes the filters of the query built exactly when it
  passes those of the base query and the equality filter of each of \<open>category\<close>, \<open>city\<close>
  and \<open>price\<close> that is provided (a conjunction). The ordering clauses depend on \<open>sort\<close>
  alone, and the filters on \<open>category\<close>, \<open>city\<close> and \<open>price\<close> alone.
\<close>

theorem applyQueryFilters_pure:
  assumes "map_of f1 = map_of f2"
  shows "applyQueryFilters q f1 = applyQueryFilters q f2 \<and>
         passes_filters d (applyQueryFilters q f1) =
           (passes_filters d q \<and> filter_holds d f1 ''category'' \<and>
            filter_holds d f1 ''city'' \<and> filter_holds d f1 ''price'') \<and>
         (property g ''sort'' = property f1 ''sort'' \<longrightarrow>
            ordering (applyQueryFilters q g) = ordering (applyQueryFilters q f1)) \<and>
         (property g ''category'' = property f1 ''category'' \<and>
          property g ''city'' = property f1 ''city'' \<and>
          property g ''price'' = property f1 ''price'' \<longrightarrow>
            filters_of (applyQueryFilters q g) = filters_of (applyQueryFilters q f1))"
proof -
  have same: "applyQueryFilters q f1 = applyQueryFilters q f2"
    using assms by (rule apply_same_properties)
  have order: "property g ''sort'' = property f1 ''sort'' \<longrightarrow>
      ordering (applyQueryFilters q g) = ordering (applyQueryFilters q f1)"
    by (simp add: ordering_apply)
  have filters: "property g ''category'' = property f1 ''category'' \<and>
      property g ''city'' = property f1 ''city'' \<and>
      property g ''price'' = property f1 ''price'' \<longrightarrow>
        filters_of (applyQueryFilters q g) = filters_of (applyQueryFilters q f1)"
    by (simp add: filters_of_apply)
  show ?thesis
    using same order filters passes_apply [of d q f1] by blast
qed

text \<open>
  The same two options in either order, and the example restaurant, which passes the
  filter on its category.
\<close>

theorem applyQueryFilters_pure_witness:
  "map_of [(''category'', JString ''Italian''), (''sort'', JString ''Review'')] =
     map_of [(''sort'', JString ''Review''), (''category'', JString ''Italian'')] \<and>
   applyQueryFilters (collection_query [''restaurants''])
       [(''category'', JString ''Italian''), (''sort'', JString ''Review'')] =
     applyQueryFilters (collection_query [''restaurants''])
       [(''sort'', JString ''Review''), (''category'', JString ''Italian'')] \<and>
   constraints (applyQueryFilters (collection_query [''restaurants''])
       [(''sort'', JString ''Review''), (''category'', JString ''Italian'')]) =
     [Where ''category'' Equal (JString ''Italian''), OrderBy ''numRatings'' Desc] \<and>
   passes_filters (doc_data example_restaurant)
     (applyQueryFilters (collection_query [''restaurants''])
        [(''category'', JString ''Italian''), (''sort'', JString ''Review'')])"
proof -
  have same: "map_of [(''category'', JString ''Italian''), (''sort'', JString ''Review'')] =
     map_of [(''sort'', JString ''Review''), (''category'', JString ''Italian'')]"
    by (rule ext) simp
  have built: "constraints (applyQueryFilters (collection_query [''restaurants''])
       [(''sort'', JString ''Review''), (''category'', JString ''Italian'')]) =
     [Where ''category'' Equal (JString ''Italian''), OrderBy ''numRatings'' Desc]"
    by (simp add: applyQueryFilters_def Let_def property_def query_def collection_query_def)
  have base: "passes_filters (doc_data example_restaurant) (collection_query [''restaurants''])"
    by (simp add: passes_filters_def filters_of_def collection_query_def)
  have holds: "filter_holds (doc_data example_restaurant)
      [(''category'', JString ''Italian''), (''sort'', JString ''Review'')] ''category'' \<and>
     filter_holds (doc_data example_restaurant)
      [(''category'', JString ''Italian''), (''sort'', JString ''Review'')] ''city'' \<and>
     filter_holds (doc_data example_restaurant)
      [(''category'', JString ''Italian''), (''sort'', JString ''Review'')] ''price''"
    by (simp add: filter_holds_def property_def doc_data_def example_restaurant_def)
  note pure = applyQueryFilters_pure [OF same, of "collection_query [''restaurants'']"
      "doc_data example_restaurant" "[]"]
  have equal: "applyQueryFilters (collection_query [''restaurants''])
       [(''category'', JString ''Italian''), (''sort'', JString ''Review'')] =
     applyQueryFilters (collection_query [''restaurants''])
       [(''sort'', JString ''Review''), (''category'', JString ''Italian'')]"
    using pure by (rule conjunct1)
  have passes: "passes_filters (doc_data example_restaurant)
     (applyQueryFilters (collection_query [''restaurants''])
        [(''category'', JString ''Italian''), (''sort'', JString ''Review'')])"
    using pure base holds by blast
  show ?thesis
    using same equal built passes by (intro conjI)
qed

section \<open>Properties of the reads and subscriptions\<close>

text \<open>
  C6, as stated: with an empty id the document watch returns \<^verbatim>\<open>undefined\<close> and throws
  nothing, as does the collection watch with a callback that is not a function; and
  the document watch does not look at its callback when it subscribes, so with a valid
  id and a callback that is not a function the listener is registered.
\<close>

theorem subscribe_invalid_argument_counterexample:
  "fst (getRestaurantSnapshotById (Some []) (Function 0) []) = Inr None \<and>
   fst (getRestaurantsSnapshot (NotFunction None) None []) = Inr None \<and>
   getRestaurantSnapshotById (Some ''R'') (NotFunction None) [] =
     (Inr (Some (Unsubscribe 0)), [RestaurantListener ''R'' (NotFunction None)])"
  by (simp add: getRestaurantSnapshotById_def getRestaurantsSnapshot_def missing_id_def
      onSnapshot_def)

text \<open>
  C6 (amended). The collection watch called with a callback that is not a function, and
  the document watch and the reviews watch called with an empty or undefined id, return
  \<^verbatim>\<open>undefined\<close> at the call, without throwing, and register no listener: the listeners
  are as before.
\<close>

theorem subscribe_invalid_argument:
  "(\<not> is_function cb \<longrightarrow> getRestaurantsSnapshot cb filters ls = (Inr None, ls)) \<and>
   (missing_id restaurantId \<longrightarrow> getRestaurantSnapshotById restaurantId cb ls = (Inr None, ls)) \<and>
   (missing_id restaurantId \<longrightarrow>
      getReviewsSnapshotByRestaurantId restaurantId cb ls = (Inr None, ls))"
  by (simp add: getRestaurantsSnapshot_def getRestaurantSnapshotById_def
      getReviewsSnapshotByRestaurantId_def)

theorem subscribe_invalid_argument_witness:
  "\<not> is_function (NotFunction (Some (JString ''callback''))) \<and>
   getRestaurantsSnapshot (NotFunction (Some (JString ''callback''))) None [] = (Inr None, []) \<and>
   missing_id (Some []) \<and>
   getRestaurantSnapshotById (Some []) (Function 0) [] = (Inr None, []) \<and>
   getReviewsSnapshotByRestaurantId (Some []) (Function 0) [] = (Inr None, [])"
proof -
  have a: "\<not> is_function (NotFunction (Some (JString ''callback'')))" by simp
  have b: "missing_id (Some [])" by (simp add: missing_id_def)
  show ?thesis
    using subscribe_invalid_argument [of "NotFunction (Some (JString ''callback''))" None "[]" "Some []"]
      subscribe_invalid_argument [of "Function 0" None "[]" "Some []"] a b
    by simp
qed

lemma snapshotById_registered:
  assumes "getRestaurantSnapshotById (Some rid) cb ls = (Inr (Some u), ls')"
  shows "rid \<noteq> [] \<and> ls' = ls @ [RestaurantListener rid cb] \<and> u = Unsubscribe (length ls)"
  using assms
  by (auto simp: getRestaurantSnapshotById_def missing_id_def onSnapshot_def split: if_splits)

text \<open>
  C7. After a document watch is established for a restaurant id with a callback function,
  in every state of the store in which that restaurant has no document (it never existed
  or was deleted later), a notification of the listener calls the callback with
  \<^verbatim>\<open>null\<close>, a value distinct from every data payload, and raises no error.
\<close>

theorem watchDocument_not_found:
  assumes sub: "getRestaurantSnapshotById (Some rid) (Function f) ls = (Inr (Some u), ls')"
      and gone: "restaurants st rid = None"
  shows "ls' = ls @ [RestaurantListener rid (Function f)] \<and>
         notify run st (last ls') = Inr (f, Null) \<and>
         (\<forall>p. Null \<noteq> Data p) \<and> (\<forall>ps. Null \<noteq> Results ps)"
  using snapshotById_registered [OF sub] gone
  by (simp add: doc_next_def getDoc_def)

theorem watchDocument_not_found_witness:
  "getRestaurantSnapshotById (Some ''gone'') (Function 7) [] =
     (Inr (Some (Unsubscribe 0)), [RestaurantListener ''gone'' (Function 7)]) \<and>
   restaurants example_store ''gone'' = None \<and>
   notify (\<lambda>q. []) example_store (last [RestaurantListener ''gone'' (Function 7)]) =
     Inr (7, Null)"
proof -
  have sub: "getRestaurantSnapshotById (Some ''gone'') (Function 7) [] =
     (Inr (Some (Unsubscribe 0)), [RestaurantListener ''gone'' (Function 7)])"
    by (simp add: getRestaurantSnapshotById_def missing_id_def onSnapshot_def)
  have gone: "restaurants example_store ''gone'' = None"
    by (simp add: example_store_def)
  show ?thesis
    using watchDocument_not_found [OF sub gone, of "\<lambda>q. []"] sub gone by simp
qed



end
